theory Spec2Isabelle
  imports Complex_Main
begin

section \<open>Errors\<close>

text \<open>
  The module \<open>models/plst.py\<close> raises nothing by itself; every failure comes from the
  tensor library it calls. The three exception classes that those calls raise are kept
  apart: \<open>RuntimeError\<close> (a shape that an operator refuses), \<open>ValueError\<close> (a failed
  tuple unpacking, instance normalisation of a single spatial element) and \<open>IndexError\<close>
  (more indices than axes).
\<close>

datatype error = RuntimeError | ValueError | IndexError

definition bindE :: "error + 'a \<Rightarrow> ('a \<Rightarrow> error + 'b) \<Rightarrow> error + 'b" where
  "bindE r f = (case r of Inl e \<Rightarrow> Inl e | Inr v \<Rightarrow> f v)"

section \<open>Shapes of image batches through the layers\<close>

text \<open>
  The size of a four-axis tensor \<open>[N, C, H, W]\<close>. The functions of this section follow
  what each layer does to the size of its input, and where it refuses the input.
\<close>

type_synonym shape4 = "nat \<times> nat \<times> nat \<times> nat"

text \<open>
  \<open>nn.Conv2d(in_channels, out_channels, kernel_size, stride, padding, padding_mode)\<close>.
  With \<open>padding_mode='reflect'\<close> the input is first padded by reflection, which needs
  the padding to be smaller than the padded axis; the kernel then has to fit into the
  padded input, and each spatial axis \<open>d\<close> becomes \<open>(d + 2 * padding - kernel) div stride + 1\<close>.
\<close>

definition conv_out :: "nat \<Rightarrow> nat \<Rightarrow> nat \<Rightarrow> nat \<Rightarrow> nat" where
  "conv_out kernel_size stride padding d = (d + 2 * padding - kernel_size) div stride + 1"

definition Conv2d :: "nat \<Rightarrow> nat \<Rightarrow> nat \<Rightarrow> nat \<Rightarrow> nat \<Rightarrow> bool \<Rightarrow> shape4 \<Rightarrow> error + shape4" where
  "Conv2d in_channels out_channels kernel_size stride padding reflect x =
     (case x of (n, c, h, w) \<Rightarrow>
        if c \<noteq> in_channels then Inl RuntimeError
        else if reflect \<and> 0 < padding \<and> (h \<le> padding \<or> w \<le> padding) then Inl RuntimeError
        else if h + 2 * padding < kernel_size \<or> w + 2 * padding < kernel_size
          then Inl RuntimeError
        else Inr (n, out_channels,
                  conv_out kernel_size stride padding h,
                  conv_out kernel_size stride padding w))"

text \<open>
  \<open>nn.InstanceNorm2d(num_features, affine)\<close> computes its statistics from the input on
  every call, and refuses an input with a single spatial element; the affine weight of
  \<open>num_features\<close> entries has to match the channels.
\<close>

definition InstanceNorm2d :: "nat \<Rightarrow> bool \<Rightarrow> shape4 \<Rightarrow> error + shape4" where
  "InstanceNorm2d num_features affine x =
     (case x of (n, c, h, w) \<Rightarrow>
        if h * w = 1 then Inl ValueError
        else if affine \<and> c \<noteq> num_features then Inl RuntimeError
        else Inr x)"

definition ReLU :: "shape4 \<Rightarrow> error + shape4" where
  "ReLU x = Inr x"

text \<open>\<open>torch.nn.Upsample(scale_factor)\<close>, nearest neighbour: both spatial axes are multiplied.\<close>

definition Upsample :: "nat \<Rightarrow> shape4 \<Rightarrow> error + shape4" where
  "Upsample scale_factor x =
     (case x of (n, c, h, w) \<Rightarrow>
        if h * scale_factor = 0 \<or> w * scale_factor = 0 then Inl RuntimeError
        else Inr (n, c, h * scale_factor, w * scale_factor))"

text \<open>\<open>nn.MaxPool2d(kernel_size=2, stride=2)\<close>: an output axis of size zero is refused.\<close>

definition MaxPool2d :: "shape4 \<Rightarrow> error + shape4" where
  "MaxPool2d x =
     (case x of (n, c, h, w) \<Rightarrow>
        if h div 2 = 0 \<or> w div 2 = 0 then Inl RuntimeError
        else Inr (n, c, h div 2, w div 2))"

text \<open>The size of \<open>a + b\<close>: axes are equal, or one of them is 1 and is repeated.\<close>

definition bc_axis :: "nat \<Rightarrow> nat \<Rightarrow> error + nat" where
  "bc_axis a b = (if a = b then Inr a else if a = 1 then Inr b else if b = 1 then Inr a
                  else Inl RuntimeError)"

definition add_shape :: "shape4 \<Rightarrow> shape4 \<Rightarrow> error + shape4" where
  "add_shape x y =
     (case x of (n, c, h, w) \<Rightarrow> case y of (n', c', h', w') \<Rightarrow>
        bindE (bc_axis n n') (\<lambda>n''. bindE (bc_axis c c') (\<lambda>c''.
        bindE (bc_axis h h') (\<lambda>h''. bindE (bc_axis w w') (\<lambda>w''.
        Inr (n'', c'', h'', w''))))))"

text \<open>A sequence of layers applied one after the other; the first refusal ends the run.\<close>

fun Sequential :: "(shape4 \<Rightarrow> error + shape4) list \<Rightarrow> shape4 \<Rightarrow> error + shape4" where
  "Sequential [] x = Inr x"
| "Sequential (l # ls) x = bindE (l x) (Sequential ls)"

subsection \<open>ResidualBlock and UpsampleConvLayer\<close>

definition ResidualBlock :: "nat \<Rightarrow> shape4 \<Rightarrow> error + shape4" where
  "ResidualBlock channels x =
     (let residual = x in
      bindE (Sequential [Conv2d channels channels 3 1 1 True, InstanceNorm2d channels False, ReLU] x)
        (\<lambda>x. bindE (Sequential [Conv2d channels channels 3 1 1 True, InstanceNorm2d channels False] x)
        (\<lambda>x. add_shape x residual)))"

definition UpsampleConvLayer ::
    "nat \<Rightarrow> nat \<Rightarrow> nat \<Rightarrow> nat \<Rightarrow> nat option \<Rightarrow> shape4 \<Rightarrow> error + shape4" where
  "UpsampleConvLayer in_channels out_channels kernel_size stride upsample x =
     bindE (case upsample of None \<Rightarrow> Inr x
            | Some f \<Rightarrow> if f = 0 then Inr x else Upsample f x)
       (Conv2d in_channels out_channels kernel_size stride (kernel_size div 2) True)"

subsection \<open>StyleTransferNet\<close>

definition StyleTransferNet :: "shape4 \<Rightarrow> error + shape4" where
  "StyleTransferNet x =
     Sequential
       [Conv2d 3 32 9 1 4 True, InstanceNorm2d 32 True, ReLU,
        Conv2d 32 64 3 2 1 True, InstanceNorm2d 64 True, ReLU,
        Conv2d 64 128 3 2 1 True, InstanceNorm2d 128 True, ReLU,
        ResidualBlock 128, ResidualBlock 128, ResidualBlock 128,
        ResidualBlock 128, ResidualBlock 128,
        UpsampleConvLayer 128 64 3 1 (Some 2), InstanceNorm2d 64 True, ReLU,
        UpsampleConvLayer 64 32 3 1 (Some 2), InstanceNorm2d 32 True, ReLU,
        Conv2d 32 3 9 1 4 True,
        InstanceNorm2d 3 True] x"

subsection \<open>Vgg16\<close>

text \<open>
  Modelled from the spec: the layer table \<open>models.vgg16(pretrained=True).features\<close> is not
  part of the repository. The spec calls it a pretrained 16-layer convolutional backbone,
  and \<open>Vgg16.forward\<close> documents the four outputs as \<open>[N, 64, 256, 256]\<close>,
  \<open>[N, 128, 128, 128]\<close>, \<open>[N, 256, 64, 64]\<close>, \<open>[N, 512, 32, 32]\<close> for a \<open>256 \<times> 256\<close>
  input and names them \<open>relu1_2\<close>, \<open>relu2_2\<close>, \<open>relu3_3\<close>, \<open>relu4_3\<close>. The table is the
  16-layer configuration with that layout: \<open>3 \<times> 3\<close> convolutions of stride 1 and zero
  padding 1, each followed by a rectifier, in groups of 2, 2, 3, 3 and 3 with 64, 128,
  256, 512 and 512 channels, each group closed by a \<open>2 \<times> 2\<close> max-pooling.
\<close>

datatype layer = Conv nat nat | Relu | Pool

definition vgg16_features :: "layer list" where
  "vgg16_features =
     [Conv 3 64, Relu, Conv 64 64, Relu, Pool,
      Conv 64 128, Relu, Conv 128 128, Relu, Pool,
      Conv 128 256, Relu, Conv 256 256, Relu, Conv 256 256, Relu, Pool,
      Conv 256 512, Relu, Conv 512 512, Relu, Conv 512 512, Relu, Pool,
      Conv 512 512, Relu, Conv 512 512, Relu, Conv 512 512, Relu, Pool]"

fun apply_layer :: "layer \<Rightarrow> shape4 \<Rightarrow> error + shape4" where
  "apply_layer (Conv i out) x = Conv2d i out 3 1 1 False x"
| "apply_layer Relu x = ReLU x"
| "apply_layer Pool x = MaxPool2d x"

text \<open>The four slices, filled by the loops over \<open>range(4)\<close>, \<open>range(4, 9)\<close>,
  \<open>range(9, 16)\<close> and \<open>range(16, 23)\<close>.\<close>

definition slice1 :: "shape4 \<Rightarrow> error + shape4" where
  "slice1 = Sequential (map (\<lambda>x. apply_layer (vgg16_features ! x)) [0..<4])"

definition slice2 :: "shape4 \<Rightarrow> error + shape4" where
  "slice2 = Sequential (map (\<lambda>x. apply_layer (vgg16_features ! x)) [4..<9])"

definition slice3 :: "shape4 \<Rightarrow> error + shape4" where
  "slice3 = Sequential (map (\<lambda>x. apply_layer (vgg16_features ! x)) [9..<16])"

definition slice4 :: "shape4 \<Rightarrow> error + shape4" where
  "slice4 = Sequential (map (\<lambda>x. apply_layer (vgg16_features ! x)) [16..<23])"

definition Vgg16 :: "shape4 \<Rightarrow> error + (shape4 \<times> shape4 \<times> shape4 \<times> shape4)" where
  "Vgg16 x =
     bindE (slice1 x) (\<lambda>x. let relu1_2 = x in
     bindE (slice2 x) (\<lambda>x. let relu2_2 = x in
     bindE (slice3 x) (\<lambda>x. let relu3_3 = x in
     bindE (slice4 x) (\<lambda>x. let relu4_3 = x in
     Inr (relu1_2, relu2_2, relu3_3, relu4_3)))))"

section \<open>Tensors and their values\<close>

text \<open>
  The pixels of an image and the entries of a feature map are finite numbers, and
  arithmetic on them is exact: rounding and overflow are left out. What a computation
  returns is a finite number or the not-a-number that the division \<open>0 / 0\<close> leaves:
  the mean of a tensor without entries, a Gram matrix of a feature map without spatial
  positions. An operation with a not-a-number operand gives not-a-number.
\<close>

datatype scalar = Num real | NaN

fun s_add :: "scalar \<Rightarrow> scalar \<Rightarrow> scalar" where
  "s_add (Num a) (Num b) = Num (a + b)"
| "s_add _ _ = NaN"

fun s_sub :: "scalar \<Rightarrow> scalar \<Rightarrow> scalar" where
  "s_sub (Num a) (Num b) = Num (a - b)"
| "s_sub _ _ = NaN"

fun s_mul :: "scalar \<Rightarrow> scalar \<Rightarrow> scalar" where
  "s_mul (Num a) (Num b) = Num (a * b)"
| "s_mul _ _ = NaN"

fun s_abs :: "scalar \<Rightarrow> scalar" where
  "s_abs (Num a) = Num \<bar>a\<bar>"
| "s_abs NaN = NaN"

text \<open>
  Division by a count. Both divisions of the module divide a sum over \<open>n\<close> terms (or
  over positions of which there are \<open>n\<close>) by \<open>n\<close>, so that a zero divisor meets a zero
  dividend.
\<close>

fun s_div :: "scalar \<Rightarrow> nat \<Rightarrow> scalar" where
  "s_div (Num a) n = (if n = 0 then NaN else Num (a / real n))"
| "s_div NaN n = NaN"

definition s_sum :: "scalar list \<Rightarrow> scalar" where
  "s_sum xs = foldr s_add xs (Num 0)"

text \<open>
  A tensor has a size, one extent per axis, and an entry at every index vector within
  the size. What \<open>elt\<close> gives outside the size is never read. An image batch and a
  feature map are of type \<open>real tensor\<close>; what is computed from them is of type
  \<open>scalar tensor\<close>.
\<close>

record 'a tensor =
  dims :: "nat list"
  elt :: "nat list \<Rightarrow> 'a"

text \<open>All index vectors of a size, in row-major order.\<close>

fun indices :: "nat list \<Rightarrow> nat list list" where
  "indices [] = [[]]"
| "indices (d # ds) = concat (map (\<lambda>i. map ((#) i) (indices ds)) [0..<d])"

definition entries :: "'a tensor \<Rightarrow> 'a list" where
  "entries t = map (elt t) (indices (dims t))"

definition tmap :: "('a \<Rightarrow> 'b) \<Rightarrow> 'a tensor \<Rightarrow> 'b tensor" where
  "tmap f t = \<lparr>dims = dims t, elt = \<lambda>idx. f (elt t idx)\<rparr>"

text \<open>The numbers of an image or a feature map, as operands of the tensor operations.\<close>

definition of_reals :: "real tensor \<Rightarrow> scalar tensor" where
  "of_reals t = tmap Num t"

text \<open>\<open>torch.mean\<close> over all entries: the sum divided by the number of entries.\<close>

definition mean :: "scalar tensor \<Rightarrow> scalar" where
  "mean t = s_div (s_sum (entries t)) (length (entries t))"

text \<open>\<open>torch.abs\<close>.\<close>

definition tabs :: "scalar tensor \<Rightarrow> scalar tensor" where
  "tabs t = tmap s_abs t"

subsection \<open>Broadcasting\<close>

text \<open>
  Two sizes are aligned at their last axes. Two extents go together when they are equal
  or one of them is 1; the extent 1 is then repeated.
\<close>

fun broadcast_rev :: "nat list \<Rightarrow> nat list \<Rightarrow> error + nat list" where
  "broadcast_rev [] ys = Inr ys"
| "broadcast_rev (x # xs) [] = Inr (x # xs)"
| "broadcast_rev (x # xs) (y # ys) =
     (if x = y \<or> x = 1 \<or> y = 1
      then bindE (broadcast_rev xs ys) (\<lambda>ds. Inr ((if x = 1 then y else x) # ds))
      else Inl RuntimeError)"

definition broadcast_shapes :: "nat list \<Rightarrow> nat list \<Rightarrow> error + nat list" where
  "broadcast_shapes a b = bindE (broadcast_rev (rev a) (rev b)) (\<lambda>ds. Inr (rev ds))"

definition expand :: "'a tensor \<Rightarrow> nat list \<Rightarrow> 'a tensor" where
  "expand t ds =
     \<lparr>dims = ds,
      elt = \<lambda>idx. elt t (map2 (\<lambda>d i. if d = 1 then 0 else i) (dims t)
                             (drop (length ds - length (dims t)) idx))\<rparr>"

text \<open>The difference \<open>a - b\<close> of two tensors.\<close>

definition tsub :: "scalar tensor \<Rightarrow> scalar tensor \<Rightarrow> error + scalar tensor" where
  "tsub a b =
     bindE (broadcast_shapes (dims a) (dims b))
       (\<lambda>ds. Inr \<lparr>dims = ds, elt = \<lambda>idx. s_sub (elt (expand a ds) idx) (elt (expand b ds) idx)\<rparr>)"

text \<open>
  \<open>nn.MSELoss(reduction='mean')\<close>: input and target are broadcast against each other,
  and the squared differences are averaged.
\<close>

definition MSELoss :: "scalar tensor \<Rightarrow> scalar tensor \<Rightarrow> error + scalar" where
  "MSELoss input target =
     bindE (tsub input target) (\<lambda>d. Inr (mean (tmap (\<lambda>v. s_mul v v) d)))"

subsection \<open>Slices, views and batched products\<close>

text \<open>
  The slices \<open>:-1\<close> and \<open>1:\<close> along one axis. Both leave an extent of \<open>d - 1\<close> (and 0 for
  an empty axis); the second starts at position 1.
\<close>

definition slice_to_last :: "nat \<Rightarrow> 'a tensor \<Rightarrow> 'a tensor" where
  "slice_to_last ax t = \<lparr>dims = (dims t)[ax := dims t ! ax - 1], elt = elt t\<rparr>"

definition slice_from_1 :: "nat \<Rightarrow> 'a tensor \<Rightarrow> 'a tensor" where
  "slice_from_1 ax t =
     \<lparr>dims = (dims t)[ax := dims t ! ax - 1], elt = \<lambda>idx. elt t (idx[ax := Suc (idx ! ax)])\<rparr>"

text \<open>Row-major position of an index vector, and back.\<close>

fun flat_index :: "nat list \<Rightarrow> nat list \<Rightarrow> nat" where
  "flat_index (d # ds) (i # idx) = i * prod_list ds + flat_index ds idx"
| "flat_index _ _ = 0"

fun unflatten :: "nat list \<Rightarrow> nat \<Rightarrow> nat list" where
  "unflatten [] k = []"
| "unflatten (d # ds) k = (k div prod_list ds) # unflatten ds (k mod prod_list ds)"

text \<open>\<open>t.view(ds)\<close> of a contiguous tensor: the same entries in the same order.\<close>

definition view :: "'a tensor \<Rightarrow> nat list \<Rightarrow> error + 'a tensor" where
  "view t ds =
     (if prod_list ds \<noteq> prod_list (dims t) then Inl RuntimeError
      else Inr \<lparr>dims = ds, elt = \<lambda>idx. elt t (unflatten (dims t) (flat_index ds idx))\<rparr>)"

text \<open>\<open>t.transpose(1, 2)\<close> of a tensor with three axes.\<close>

definition transpose_1_2 :: "'a tensor \<Rightarrow> error + 'a tensor" where
  "transpose_1_2 t =
     (case dims t of
        [b, n, m] \<Rightarrow> Inr \<lparr>dims = [b, m, n], elt = \<lambda>idx. elt t [idx ! 0, idx ! 2, idx ! 1]\<rparr>
      | _ \<Rightarrow> Inl IndexError)"

text \<open>\<open>torch.bmm\<close>: one matrix product per batch entry.\<close>

definition bmm :: "scalar tensor \<Rightarrow> scalar tensor \<Rightarrow> error + scalar tensor" where
  "bmm A B =
     (case dims A of
        [b, n, m] \<Rightarrow>
          (case dims B of
             [b', m', p] \<Rightarrow>
               if b = b' \<and> m = m'
               then Inr \<lparr>dims = [b, n, p],
                         elt = \<lambda>idx. s_sum (map (\<lambda>k. s_mul (elt A [idx ! 0, idx ! 1, k])
                                                            (elt B [idx ! 0, k, idx ! 2]))
                                               [0..<m])\<rparr>
               else Inl RuntimeError
           | _ \<Rightarrow> Inl RuntimeError)
      | _ \<Rightarrow> Inl RuntimeError)"

section \<open>The loss terms\<close>

definition L_feat :: "real tensor \<Rightarrow> real tensor \<Rightarrow> error + scalar" where
  "L_feat feats targets = MSELoss (of_reals feats) (of_reals targets)"

text \<open>The unpacking \<open>b, c, h, w = input.size()\<close> needs exactly four axes.\<close>

definition gram_matrix :: "real tensor \<Rightarrow> error + scalar tensor" where
  "gram_matrix input =
     (case dims input of
        [b, c, h, w] \<Rightarrow>
          bindE (view (of_reals input) [b, c, h * w]) (\<lambda>features.
          bindE (transpose_1_2 features) (\<lambda>featuresT.
          bindE (bmm features featuresT) (\<lambda>G.
          Inr (tmap (\<lambda>v. s_div v (h * w)) G))))
      | _ \<Rightarrow> Inl ValueError)"

definition L_style :: "real tensor \<Rightarrow> real tensor \<Rightarrow> error + scalar" where
  "L_style feats targets =
     bindE (gram_matrix feats) (\<lambda>g. bindE (gram_matrix targets) (\<lambda>g'. MSELoss g g'))"

definition L_pixel :: "real tensor \<Rightarrow> real tensor \<Rightarrow> error + scalar" where
  "L_pixel feats targets = MSELoss (of_reals feats) (of_reals targets)"

text \<open>
  The four-place subscripts \<open>preds[:, :, :, :-1]\<close> need at least four axes; the slices
  are along the last of the four (columns) and the one before (rows).
\<close>

definition L_tv :: "real tensor \<Rightarrow> error + scalar" where
  "L_tv preds =
     (if length (dims preds) < 4 then Inl IndexError
      else bindE (tsub (of_reals (slice_to_last 3 preds)) (of_reals (slice_from_1 3 preds))) (\<lambda>dw.
           bindE (tsub (of_reals (slice_to_last 2 preds)) (of_reals (slice_from_1 2 preds))) (\<lambda>dh.
           Inr (s_add (mean (tabs dw)) (mean (tabs dh))))))"

section \<open>The loss session\<close>

text \<open>
  \<open>Loss_plst\<close> keeps the extractor it was given, the style image, the three weights and
  the four feature maps of the style image. The extractor is any callable that returns
  four tensors; its parameters are frozen, so it is a function of its input.
\<close>

type_synonym extractor =
  "real tensor \<Rightarrow> error + (real tensor \<times> real tensor \<times> real tensor \<times> real tensor)"

record Loss_plst =
  vgg :: extractor
  style_img :: "real tensor"
  lambda_c :: real
  lambda_s :: real
  lambda_tv :: real
  style_relu1_2 :: "real tensor"
  style_relu2_2 :: "real tensor"
  style_relu3_3 :: "real tensor"
  style_relu4_3 :: "real tensor"

definition Loss_plst_init ::
    "extractor \<Rightarrow> real tensor \<Rightarrow> real \<Rightarrow> real \<Rightarrow> real \<Rightarrow> error + Loss_plst" where
  "Loss_plst_init vgg' style_img' lambda_c' lambda_s' lambda_tv' =
     bindE (vgg' style_img') (\<lambda>(r1, r2, r3, r4).
       Inr \<lparr>vgg = vgg', style_img = style_img',
            lambda_c = lambda_c', lambda_s = lambda_s', lambda_tv = lambda_tv',
            style_relu1_2 = r1, style_relu2_2 = r2, style_relu3_3 = r3, style_relu4_3 = r4\<rparr>)"

text \<open>
  The method returns its result, or the exception, together with the session as it
  leaves it.
\<close>

definition extract_and_calculate_loss ::
    "Loss_plst \<Rightarrow> real tensor \<Rightarrow> real tensor \<Rightarrow> (error + scalar \<times> scalar \<times> scalar) \<times> Loss_plst" where
  "extract_and_calculate_loss self x y_hat =
     (bindE (vgg self x) (\<lambda>(_, _, content_target, _).
      bindE (vgg self y_hat) (\<lambda>(content_relu1_2, content_relu2_2, content_relu3_3, content_relu4_3).
      bindE (L_feat content_relu3_3 content_target) (\<lambda>loss_c.
      bindE (L_style content_relu1_2 (style_relu1_2 self)) (\<lambda>s1.
      bindE (L_style content_relu2_2 (style_relu2_2 self)) (\<lambda>s2.
      bindE (L_style content_relu3_3 (style_relu3_3 self)) (\<lambda>s3.
      bindE (L_style content_relu4_3 (style_relu4_3 self)) (\<lambda>s4.
      let loss_s = s_add (s_add (s_add s1 s2) s3) s4 in
      bindE (L_tv y_hat) (\<lambda>loss_tv.
      Inr (s_mul (Num (lambda_c self)) loss_c,
           s_mul (Num (lambda_s self)) loss_s,
           s_mul (Num (lambda_tv self)) loss_tv))))))))),
      self)"

text \<open>A training run calls the method again and again on the session it has.\<close>

fun run_calls :: "Loss_plst \<Rightarrow> (real tensor \<times> real tensor) list \<Rightarrow> Loss_plst" where
  "run_calls self [] = self"
| "run_calls self ((x, y_hat) # calls) =
     run_calls (snd (extract_and_calculate_loss self x y_hat)) calls"

section \<open>Notions for stating the properties\<close>


text \<open>
  An image batch is spatially constant when every pixel of a channel of a sample equals
  the pixel at row 0 and column 0 of that channel.
\<close>

definition spatially_constant :: "real tensor \<Rightarrow> bool" where
  "spatially_constant t =
     list_all (\<lambda>idx. elt t idx = elt t (idx[2 := 0, 3 := 0])) (indices (dims t))"

text \<open>\<open>torch.full(ds, v)\<close>, for writing down concrete tensors.\<close>

definition full :: "nat list \<Rightarrow> real \<Rightarrow> real tensor" where
  "full ds v = \<lparr>dims = ds, elt = \<lambda>idx. v\<rparr>"

text \<open>\<open>torch.tensor\<close> of a nested list with four levels, for writing down concrete images.\<close>

definition tensor4 :: "real list list list list \<Rightarrow> real tensor" where
  "tensor4 x =
     \<lparr>dims = [length x, length (hd x), length (hd (hd x)), length (hd (hd (hd x)))],
      elt = \<lambda>idx. x ! (idx ! 0) ! (idx ! 1) ! (idx ! 2) ! (idx ! 3)\<rparr>"



text \<open>
  An extractor for concrete sessions that follows \<open>Vgg16\<close>: every feature is the first
  pixel of the image.
\<close>

definition filled_features :: extractor where
  "filled_features x =
     (case dims x of
        [n, c, h, w] \<Rightarrow>
          (case Vgg16 (n, c, h, w) of
             Inl e \<Rightarrow> Inl e
           | Inr ((n1, c1, h1, w1), (n2, c2, h2, w2), (n3, c3, h3, w3), (n4, c4, h4, w4)) \<Rightarrow>
               Inr (full [n1, c1, h1, w1] (elt x [0, 0, 0, 0]),
                    full [n2, c2, h2, w2] (elt x [0, 0, 0, 0]),
                    full [n3, c3, h3, w3] (elt x [0, 0, 0, 0]),
                    full [n4, c4, h4, w4] (elt x [0, 0, 0, 0])))
      | _ \<Rightarrow> Inl RuntimeError)"

section \<open>Shape lemmas\<close>

lemma bindE_simps [simp]: "bindE (Inl e) f = Inl e" "bindE (Inr v) f = f v"
  by (simp_all add: bindE_def)








lemma StyleTransferNet_small: "h \<le> 4 \<or> w \<le> 4 \<Longrightarrow> StyleTransferNet (n, 3, h, w) = Inl RuntimeError"
  by (auto simp add: StyleTransferNet_def Conv2d_def)


lemma upt_0_4: "[0..<4] = [0, 1, 2, 3]"
  by code_simp

lemma slice_layers:
  "map (\<lambda>x. apply_layer (vgg16_features ! x)) [0..<4] = map apply_layer [Conv 3 64, Relu, Conv 64 64, Relu]"
  "map (\<lambda>x. apply_layer (vgg16_features ! x)) [4..<9] =
     map apply_layer [Pool, Conv 64 128, Relu, Conv 128 128, Relu]"
  "map (\<lambda>x. apply_layer (vgg16_features ! x)) [9..<16] =
     map apply_layer [Pool, Conv 128 256, Relu, Conv 256 256, Relu, Conv 256 256, Relu]"
  "map (\<lambda>x. apply_layer (vgg16_features ! x)) [16..<23] =
     map apply_layer [Pool, Conv 256 512, Relu, Conv 512 512, Relu, Conv 512 512, Relu]"
  by (simp_all add: vgg16_features_def upt_rec_numeral upt_0_4)

lemma div2_zero: "(h::nat) div 2 = 0 \<longleftrightarrow> h < 2"
  by presburger

lemma slice1_shape: "slice1 (n, c, h, w) =
   (if c = 3 \<and> 1 \<le> h \<and> 1 \<le> w then Inr (n, 64, h, w) else Inl RuntimeError)"
  unfolding slice1_def slice_layers
  by (simp add: Conv2d_def conv_out_def ReLU_def)

lemma slice2_shape: "slice2 (n, 64, h, w) =
   (if 2 \<le> h \<and> 2 \<le> w then Inr (n, 128, h div 2, w div 2) else Inl RuntimeError)"
  unfolding slice2_def slice_layers
  by (auto simp add: Conv2d_def conv_out_def ReLU_def MaxPool2d_def div2_zero)

lemma slice3_shape: "slice3 (n, 128, h, w) =
   (if 2 \<le> h \<and> 2 \<le> w then Inr (n, 256, h div 2, w div 2) else Inl RuntimeError)"
  unfolding slice3_def slice_layers
  by (auto simp add: Conv2d_def conv_out_def ReLU_def MaxPool2d_def div2_zero)

lemma slice4_shape: "slice4 (n, 256, h, w) =
   (if 2 \<le> h \<and> 2 \<le> w then Inr (n, 512, h div 2, w div 2) else Inl RuntimeError)"
  unfolding slice4_def slice_layers
  by (auto simp add: Conv2d_def conv_out_def ReLU_def MaxPool2d_def div2_zero)

lemma Vgg16_shape: "Vgg16 (n, c, h, w) =
   (if c = 3 \<and> 8 \<le> h \<and> 8 \<le> w
    then Inr ((n, 64, h, w), (n, 128, h div 2, w div 2),
              (n, 256, h div 4, w div 4), (n, 512, h div 8, w div 8))
    else Inl RuntimeError)"
proof -
  have "h div 2 div 2 = h div 4" "h div 4 div 2 = h div 8"
       "w div 2 div 2 = w div 4" "w div 4 div 2 = w div 8"
    by (simp_all add: div_mult2_eq[symmetric])
  moreover have "2 \<le> h div 2 \<longleftrightarrow> 4 \<le> h" "2 \<le> h div 4 \<longleftrightarrow> 8 \<le> h"
     "2 \<le> w div 2 \<longleftrightarrow> 4 \<le> w" "2 \<le> w div 4 \<longleftrightarrow> 8 \<le> w"
    by presburger+
  ultimately show ?thesis
    unfolding Vgg16_def
    by (auto simp add: slice1_shape slice2_shape slice3_shape slice4_shape Let_def)
qed


section \<open>Claims on shapes\<close>









section \<open>Tensor lemmas\<close>

lemma s_mul_commute: "s_mul a b = s_mul b a"
  by (cases a; cases b) simp_all


lemma s_sum_Num: "s_sum (map (\<lambda>x. Num (f x)) xs) = Num (sum_list (map f xs))"
  by (induction xs) (simp_all add: s_sum_def)

lemma sum_list_zero: "(\<forall>x\<in>set xs. f x = (0::real)) \<Longrightarrow> sum_list (map f xs) = 0"
  by (induction xs) simp_all

lemma sum_list_abs_nonneg: "0 \<le> sum_list (map (\<lambda>x. \<bar>f x\<bar> :: real) xs)"
  by (induction xs) simp_all

lemma sum_list_const: "sum_list (map (\<lambda>_. a :: real) xs) = real (length xs) * a"
  by (induction xs) (simp_all add: algebra_simps)

lemma indices_Cons_set:
  "set (indices (d # ds)) = {i # r | i r. i < d \<and> r \<in> set (indices ds)}"
  by auto

lemma indices_mem:
  "idx \<in> set (indices ds) \<longleftrightarrow> length idx = length ds \<and> (\<forall>k<length ds. idx ! k < ds ! k)"
proof (induction ds arbitrary: idx)
  case Nil
  then show ?case by simp
next
  case (Cons d ds)
  show ?case
  proof (cases idx)
    case Nil
    then show ?thesis by (auto simp add: indices_Cons_set simp del: indices.simps)
  next
    case (Cons i r)
    have "(\<forall>k<Suc (length ds). (i # r) ! k < (d # ds) ! k) \<longleftrightarrow>
          i < d \<and> (\<forall>k<length ds. r ! k < ds ! k)"
      by (auto simp add: nth_Cons split: nat.splits)
    then show ?thesis
      using Cons Cons.IH [of r] by (auto simp add: indices_Cons_set simp del: indices.simps)
  qed
qed

lemma length_indices: "length (indices ds) = prod_list ds"
proof (induction ds)
  case Nil
  then show ?case by simp
next
  case (Cons d ds)
  have "length (concat (map (\<lambda>i. map ((#) i) (indices ds)) [0..<d])) = d * length (indices ds)"
    by (induction d) (simp_all add: length_concat)
  then show ?case using Cons by simp
qed

lemma indices_Nil_mem: "idx \<in> set (indices []) \<longleftrightarrow> idx = []"
  by simp

lemma indices_Cons_mem:
  "idx \<in> set (indices (d # ds)) \<longleftrightarrow> (\<exists>i r. idx = i # r \<and> i < d \<and> r \<in> set (indices ds))"
  by (auto simp add: indices_Cons_set simp del: indices.simps)

declare indices.simps [simp del]

lemma indices3_mem:
  "idx \<in> set (indices [a, b, c]) \<longleftrightarrow> (\<exists>i j k. idx = [i, j, k] \<and> i < a \<and> j < b \<and> k < c)"
  by (auto simp add: indices_Cons_mem indices_Nil_mem)

lemma indices4_mem:
  "idx \<in> set (indices [a, b, c, d]) \<longleftrightarrow>
     (\<exists>i j k l. idx = [i, j, k, l] \<and> i < a \<and> j < b \<and> k < c \<and> l < d)"
  by (auto simp add: indices_Cons_mem indices_Nil_mem)

lemma list_update_4: "[a, b, c, d][3 := v] = [a, b, c, v]" "[a, b, c, d][2 := v] = [a, b, v, d]"
  "[a, b, c, d] ! 3 = d" "[a, b, c, d] ! 2 = c"
  by (simp_all add: numeral_3_eq_3 numeral_2_eq_2)

lemma of_reals_simps [simp]:
  "dims (of_reals t) = dims t" "elt (of_reals t) idx = Num (elt t idx)"
  by (simp_all add: of_reals_def tmap_def)

lemma tmap_simps [simp]: "dims (tmap f t) = dims t" "elt (tmap f t) idx = f (elt t idx)"
  by (simp_all add: tmap_def)

lemma full_simps [simp]: "dims (full ds v) = ds" "elt (full ds v) idx = v"
  by (simp_all add: full_def)



lemma spatially_constant_full: "spatially_constant (full ds v)"
  by (simp add: spatially_constant_def list_all_iff)

lemma broadcast_rev_same: "broadcast_rev xs xs = Inr xs"
  by (induction xs) simp_all

lemma broadcast_shapes_same: "broadcast_shapes ds ds = Inr ds"
  by (simp add: broadcast_shapes_def broadcast_rev_same)

lemma expand_same:
  assumes "idx \<in> set (indices (dims t))"
  shows "elt (expand t (dims t)) idx = elt t idx"
proof -
  from assms have l: "length idx = length (dims t)" and b: "\<forall>k<length (dims t). idx ! k < dims t ! k"
    by (simp_all add: indices_mem)
  have "map2 (\<lambda>d i. if d = 1 then 0 else i) (dims t) idx = idx"
    using l b by (intro nth_equalityI) auto
  then show ?thesis by (simp add: expand_def)
qed

lemma tsub_same_dims:
  assumes "dims a = dims b"
  shows "\<exists>d. tsub a b = Inr d \<and> dims d = dims a \<and>
             (\<forall>idx\<in>set (indices (dims a)). elt d idx = s_sub (elt a idx) (elt b idx))"
  using assms expand_same [of _ a] expand_same [of _ b]
  by (simp add: tsub_def broadcast_shapes_same)

lemma mean_eq:
  "mean t = s_div (s_sum (map (elt t) (indices (dims t)))) (prod_list (dims t))"
  by (simp add: mean_def entries_def length_indices)

lemma mean_tmap_tsub:
  assumes "dims a = dims b"
  shows "\<exists>d. tsub a b = Inr d \<and>
     mean (tmap f d) =
       s_div (s_sum (map (\<lambda>idx. f (s_sub (elt a idx) (elt b idx))) (indices (dims a))))
             (prod_list (dims a))"
proof -
  obtain d where d: "tsub a b = Inr d" "dims d = dims a"
      "\<forall>idx\<in>set (indices (dims a)). elt d idx = s_sub (elt a idx) (elt b idx)"
    using tsub_same_dims [OF assms] by auto
  have m: "map (elt (tmap f d)) (indices (dims (tmap f d))) =
        map (\<lambda>idx. f (s_sub (elt a idx) (elt b idx))) (indices (dims a))"
    using d(3) by (intro map_cong) (simp_all add: d(2))
  have "mean (tmap f d) =
       s_div (s_sum (map (\<lambda>idx. f (s_sub (elt a idx) (elt b idx))) (indices (dims a))))
             (prod_list (dims a))"
    unfolding mean_eq m by (simp add: d(2))
  then show ?thesis using d(1) by blast
qed

text \<open>The mean squared difference of two tensors of one size, entry by entry.\<close>

lemma MSELoss_same_dims:
  assumes "dims A = dims B"
    and "\<forall>idx\<in>set (indices (dims A)). elt A idx = Num (a idx)"
    and "\<forall>idx\<in>set (indices (dims A)). elt B idx = Num (b idx)"
  shows "MSELoss A B =
     Inr (s_div (Num (\<Sum>idx\<leftarrow>indices (dims A). (a idx - b idx) * (a idx - b idx)))
                (prod_list (dims A)))"
proof -
  from mean_tmap_tsub [OF assms(1), of "\<lambda>v. s_mul v v"] obtain D where t: "tsub A B = Inr D"
    and m: "mean (tmap (\<lambda>v. s_mul v v) D) =
       s_div (s_sum (map (\<lambda>idx. s_mul (s_sub (elt A idx) (elt B idx)) (s_sub (elt A idx) (elt B idx)))
                         (indices (dims A))))
             (prod_list (dims A))"
    by blast
  have e: "map (\<lambda>idx. s_mul (s_sub (elt A idx) (elt B idx)) (s_sub (elt A idx) (elt B idx)))
               (indices (dims A)) =
           map (\<lambda>idx. Num ((a idx - b idx) * (a idx - b idx))) (indices (dims A))"
    using assms(2,3) by (intro map_cong) simp_all
  have "mean (tmap (\<lambda>v. s_mul v v) D) =
     s_div (Num (\<Sum>idx\<leftarrow>indices (dims A). (a idx - b idx) * (a idx - b idx)))
           (prod_list (dims A))"
    unfolding m e s_sum_Num by (rule refl)
  then show ?thesis
    by (simp add: MSELoss_def t)
qed

lemma MSELoss_const:
  assumes d: "dims A = dims B" and p: "0 < prod_list (dims A)"
    and a: "\<forall>idx\<in>set (indices (dims A)). elt A idx = Num a"
    and b: "\<forall>idx\<in>set (indices (dims A)). elt B idx = Num b"
  shows "MSELoss A B = Inr (Num ((a - b) * (a - b)))"
  unfolding MSELoss_same_dims [OF d a b] sum_list_const length_indices
  using p by simp


lemma div_mod_split:
  fixes q r m :: nat
  assumes "r < m"
  shows "(q * m + r) div m = q" "(q * m + r) mod m = r"
  using assms by simp_all

lemma view_index:
  assumes "i < c" "k < h * w"
  shows "unflatten [b, c, h, w] (flat_index [b, c, h * w] [n, i, k]) = [n, i, k div w, k mod w]"
proof -
  have r: "i * (h * w) + k < c * (h * w)"
  proof -
    have "i * (h * w) + k < i * (h * w) + h * w" using assms(2) by simp
    also have "\<dots> = Suc i * (h * w)" by simp
    also have "\<dots> \<le> c * (h * w)" using assms(1) by (intro mult_le_mono1) simp
    finally show ?thesis .
  qed
  have f: "flat_index [b, c, h * w] [n, i, k] = n * (c * (h * w)) + (i * (h * w) + k)"
    by simp
  have 1: "(n * (c * (h * w)) + (i * (h * w) + k)) div (c * (h * w)) = n"
    using div_mod_split [OF r, of n] by simp
  have 2: "(i * (h * w) + k) mod (c * (h * w)) = i * (h * w) + k"
    using r by simp
  have 3: "(i * (h * w) + k) div (h * w) = i"
    using div_mod_split [OF assms(2), of i] by simp
  have 4: "k mod (h * w) = k" using assms(2) by simp
  show ?thesis
    unfolding f by (simp add: 1 2 3 4)
qed

lemma gram_matrix_entry:
  assumes "dims x = [b, c, h, w]"
  shows "\<exists>G. gram_matrix x = Inr G \<and> dims G = [b, c, c] \<and>
     (\<forall>n i j. i < c \<longrightarrow> j < c \<longrightarrow>
        elt G [n, i, j] =
          s_div (Num (\<Sum>k\<leftarrow>[0..<h * w]. elt x [n, i, k div w, k mod w] * elt x [n, j, k div w, k mod w]))
                (h * w))"
proof -
  define F where "F = \<lparr>dims = [b, c, h * w],
      elt = \<lambda>idx. elt (of_reals x) (unflatten (dims (of_reals x)) (flat_index [b, c, h * w] idx))\<rparr>"
  have v: "view (of_reals x) [b, c, h * w] = Inr F"
    by (simp add: view_def assms F_def)
  define T where "T = \<lparr>dims = [b, h * w, c], elt = \<lambda>idx. elt F [idx ! 0, idx ! 2, idx ! 1]\<rparr>"
  have t: "transpose_1_2 F = Inr T"
    by (simp add: transpose_1_2_def F_def T_def)
  define P where "P = \<lparr>dims = [b, c, c],
      elt = \<lambda>idx. s_sum (map (\<lambda>k. s_mul (elt F [idx ! 0, idx ! 1, k]) (elt T [idx ! 0, k, idx ! 2]))
                            [0..<h * w])\<rparr>"
  have p: "bmm F T = Inr P"
    by (simp add: bmm_def F_def T_def P_def)
  define G where "G = tmap (\<lambda>v. s_div v (h * w)) P"
  have g: "gram_matrix x = Inr G"
    by (simp add: gram_matrix_def assms v t p G_def)
  have "elt G [n, i, j] =
          s_div (Num (\<Sum>k\<leftarrow>[0..<h * w]. elt x [n, i, k div w, k mod w] * elt x [n, j, k div w, k mod w]))
                (h * w)" if "i < c" "j < c" for n i j
  proof -
    have m: "map (\<lambda>k. s_mul (elt F [n, i, k]) (elt T [n, k, j])) [0..<h * w] =
          map (\<lambda>k. Num (elt x [n, i, k div w, k mod w] * elt x [n, j, k div w, k mod w])) [0..<h * w]"
    proof (intro map_cong refl)
      fix k assume "k \<in> set [0..<h * w]"
      then have k: "k < h * w" by simp
      show "s_mul (elt F [n, i, k]) (elt T [n, k, j]) =
            Num (elt x [n, i, k div w, k mod w] * elt x [n, j, k div w, k mod w])"
        using view_index [OF that(1) k, of b n] view_index [OF that(2) k, of b n]
        by (simp add: F_def T_def assms)
    qed
    have e: "elt G [n, i, j] =
        s_div (s_sum (map (\<lambda>k. s_mul (elt F [n, i, k]) (elt T [n, k, j])) [0..<h * w])) (h * w)"
      by (simp add: G_def P_def)
    show ?thesis
      unfolding e m s_sum_Num by (rule refl)
  qed
  moreover have "dims G = [b, c, c]" by (simp add: G_def P_def)
  ultimately show ?thesis using g by blast
qed




lemma L_feat_full:
  assumes "0 < prod_list ds"
  shows "L_feat (full ds a) (full ds b) = Inr (Num ((a - b) * (a - b)))"
  unfolding L_feat_def
  by (rule MSELoss_const) (simp_all add: assms)

lemma gram_matrix_full:
  assumes "0 < h * w"
  shows "\<exists>G. gram_matrix (full [b, c, h, w] a) = Inr G \<and> dims G = [b, c, c] \<and>
             (\<forall>idx\<in>set (indices [b, c, c]). elt G idx = Num (a * a))"
proof -
  from gram_matrix_entry [of "full [b, c, h, w] a" b c h w] obtain G
    where g: "gram_matrix (full [b, c, h, w] a) = Inr G" "dims G = [b, c, c]"
    and e: "\<And>n i j. i < c \<Longrightarrow> j < c \<Longrightarrow> elt G [n, i, j] =
          s_div (Num (\<Sum>k\<leftarrow>[0..<h * w]. elt (full [b, c, h, w] a) [n, i, k div w, k mod w]
                                        * elt (full [b, c, h, w] a) [n, j, k div w, k mod w]))
                (h * w)"
    by auto
  have "elt G idx = Num (a * a)" if "idx \<in> set (indices [b, c, c])" for idx
  proof -
    from that obtain n i j where idx: "idx = [n, i, j]" and r: "i < c" "j < c"
      by (auto simp add: indices3_mem)
    show ?thesis
      unfolding idx e [OF r] using assms by (simp add: sum_list_const)
  qed
  then show ?thesis using g by blast
qed

lemma L_style_full:
  assumes "0 < b" "0 < c" "0 < h * w" "0 < h' * w'"
  shows "L_style (full [b, c, h, w] a) (full [b, c, h', w'] s) =
           Inr (Num ((a * a - s * s) * (a * a - s * s)))"
proof -
  from gram_matrix_full [OF assms(3), of b c a] obtain G
    where g: "gram_matrix (full [b, c, h, w] a) = Inr G" "dims G = [b, c, c]"
      "\<forall>idx\<in>set (indices [b, c, c]). elt G idx = Num (a * a)"
    by blast
  from gram_matrix_full [OF assms(4), of b c s] obtain G'
    where g': "gram_matrix (full [b, c, h', w'] s) = Inr G'" "dims G' = [b, c, c]"
      "\<forall>idx\<in>set (indices [b, c, c]). elt G' idx = Num (s * s)"
    by blast
  have "MSELoss G G' = Inr (Num ((a * a - s * s) * (a * a - s * s)))"
    using g g' assms(1,2) by (intro MSELoss_const) simp_all
  then show ?thesis by (simp add: L_style_def g(1) g'(1))
qed

lemma L_style_batch_mismatch:
  assumes "b \<noteq> b'" "b \<noteq> 1" "b' \<noteq> 1" "dims x = [b, c, h, w]" "dims y = [b', c', h', w']"
  shows "L_style x y = Inl RuntimeError"
proof -
  from gram_matrix_entry [OF assms(4)] obtain G where g: "gram_matrix x = Inr G" "dims G = [b, c, c]"
    by blast
  from gram_matrix_entry [OF assms(5)] obtain G' where g': "gram_matrix y = Inr G'" "dims G' = [b', c', c']"
    by blast
  have "broadcast_shapes [b, c, c] [b', c', c'] = Inl RuntimeError"
    using assms(1-3) by (simp add: broadcast_shapes_def bindE_def split: sum.splits)
  then show ?thesis
    by (simp add: L_style_def g g' MSELoss_def tsub_def)
qed


lemma slice_simps [simp]:
  "elt (slice_to_last ax t) idx = elt t idx"
  "elt (slice_from_1 ax t) idx = elt t (idx[ax := Suc (idx ! ax)])"
  "dims (slice_to_last ax t) = (dims t)[ax := dims t ! ax - 1]"
  "dims (slice_from_1 ax t) = (dims t)[ax := dims t ! ax - 1]"
  by (simp_all add: slice_to_last_def slice_from_1_def)

lemma mean_abs_diff:
  assumes "dims a = dims b"
  shows "\<exists>d. tsub (of_reals a) (of_reals b) = Inr d \<and>
     mean (tabs d) =
       s_div (Num (\<Sum>idx\<leftarrow>indices (dims a). \<bar>elt a idx - elt b idx\<bar>)) (prod_list (dims a))"
proof -
  from mean_tmap_tsub [of "of_reals a" "of_reals b" s_abs] assms
  obtain d where d: "tsub (of_reals a) (of_reals b) = Inr d"
    "mean (tmap s_abs d) =
       s_div (s_sum (map (\<lambda>idx. s_abs (s_sub (elt (of_reals a) idx) (elt (of_reals b) idx)))
                         (indices (dims (of_reals a)))))
             (prod_list (dims (of_reals a)))"
    by auto
  have "mean (tabs d) =
       s_div (Num (\<Sum>idx\<leftarrow>indices (dims a). \<bar>elt a idx - elt b idx\<bar>)) (prod_list (dims a))"
    unfolding tabs_def d(2) by (simp add: s_sum_Num)
  then show ?thesis using d(1) by blast
qed

lemma L_tv_formula:
  assumes "dims preds = [n, c, h, w]"
  shows "L_tv preds =
     Inr (s_add
       (s_div (Num (\<Sum>idx\<leftarrow>indices [n, c, h, w - 1]. \<bar>elt preds idx - elt preds (idx[3 := Suc (idx ! 3)])\<bar>))
              (n * c * h * (w - 1)))
       (s_div (Num (\<Sum>idx\<leftarrow>indices [n, c, h - 1, w]. \<bar>elt preds idx - elt preds (idx[2 := Suc (idx ! 2)])\<bar>))
              (n * c * (h - 1) * w)))"
proof -
  have a: "dims (slice_to_last 3 preds) = [n, c, h, w - 1]"
          "dims (slice_from_1 3 preds) = [n, c, h, w - 1]"
          "dims (slice_to_last 2 preds) = [n, c, h - 1, w]"
          "dims (slice_from_1 2 preds) = [n, c, h - 1, w]"
    by (simp_all add: assms list_update_4)
  obtain dw where dw: "tsub (of_reals (slice_to_last 3 preds)) (of_reals (slice_from_1 3 preds)) = Inr dw"
    "mean (tabs dw) =
       s_div (Num (\<Sum>idx\<leftarrow>indices (dims (slice_to_last 3 preds)).
                      \<bar>elt (slice_to_last 3 preds) idx - elt (slice_from_1 3 preds) idx\<bar>))
             (prod_list (dims (slice_to_last 3 preds)))"
    using mean_abs_diff [of "slice_to_last 3 preds" "slice_from_1 3 preds"] a by auto
  obtain dh where dh: "tsub (of_reals (slice_to_last 2 preds)) (of_reals (slice_from_1 2 preds)) = Inr dh"
    "mean (tabs dh) =
       s_div (Num (\<Sum>idx\<leftarrow>indices (dims (slice_to_last 2 preds)).
                      \<bar>elt (slice_to_last 2 preds) idx - elt (slice_from_1 2 preds) idx\<bar>))
             (prod_list (dims (slice_to_last 2 preds)))"
    using mean_abs_diff [of "slice_to_last 2 preds" "slice_from_1 2 preds"] a by auto
  show ?thesis
    using dw(2) dh(2) unfolding a
    by (simp add: L_tv_def assms dw(1) dh(1) mult.assoc)
qed

lemma L_tv_value:
  assumes d: "dims preds = [n, c, h, w]" and pos: "0 < n" "0 < c" "2 \<le> h" "2 \<le> w"
  shows "L_tv preds =
     Inr (Num ((\<Sum>idx\<leftarrow>indices [n, c, h, w - 1]. \<bar>elt preds idx - elt preds (idx[3 := Suc (idx ! 3)])\<bar>)
                 / real (n * c * h * (w - 1))
             + (\<Sum>idx\<leftarrow>indices [n, c, h - 1, w]. \<bar>elt preds idx - elt preds (idx[2 := Suc (idx ! 2)])\<bar>)
                 / real (n * c * (h - 1) * w)))"
proof -
  have c: "n * c * h * (w - 1) \<noteq> 0" "n * c * (h - 1) * w \<noteq> 0"
    using pos by simp_all
  show ?thesis
    unfolding L_tv_formula [OF d] using c by simp
qed

lemma tv_constant:
  assumes d: "dims preds = [n, c, h, w]" and s: "spatially_constant preds"
  shows "\<forall>idx\<in>set (indices [n, c, h, w - 1]). elt preds idx - elt preds (idx[3 := Suc (idx ! 3)]) = 0"
    and "\<forall>idx\<in>set (indices [n, c, h - 1, w]). elt preds idx - elt preds (idx[2 := Suc (idx ! 2)]) = 0"
proof -
  have o: "elt preds [a, b, k, l] = elt preds [a, b, 0, 0]" if "a < n" "b < c" "k < h" "l < w" for a b k l
  proof -
    have "[a, b, k, l] \<in> set (indices (dims preds))" using that by (simp add: d indices4_mem)
    then have "elt preds [a, b, k, l] = elt preds ([a, b, k, l][2 := 0, 3 := 0])"
      using s by (simp add: spatially_constant_def list_all_iff)
    then show ?thesis by (simp add: list_update_4)
  qed
  show "\<forall>idx\<in>set (indices [n, c, h, w - 1]). elt preds idx - elt preds (idx[3 := Suc (idx ! 3)]) = 0"
  proof
    fix idx assume "idx \<in> set (indices [n, c, h, w - 1])"
    then obtain a b k l where idx: "idx = [a, b, k, l]" and r: "a < n" "b < c" "k < h" "l < w - 1"
      by (auto simp add: indices4_mem)
    have "elt preds [a, b, k, l] = elt preds [a, b, k, Suc l]"
      using o [of a b k l] o [of a b k "Suc l"] r by simp
    then show "elt preds idx - elt preds (idx[3 := Suc (idx ! 3)]) = 0"
      by (simp add: idx list_update_4)
  qed
  show "\<forall>idx\<in>set (indices [n, c, h - 1, w]). elt preds idx - elt preds (idx[2 := Suc (idx ! 2)]) = 0"
  proof
    fix idx assume "idx \<in> set (indices [n, c, h - 1, w])"
    then obtain a b k l where idx: "idx = [a, b, k, l]" and r: "a < n" "b < c" "k < h - 1" "l < w"
      by (auto simp add: indices4_mem)
    have "elt preds [a, b, k, l] = elt preds [a, b, Suc k, l]"
      using o [of a b k l] o [of a b "Suc k" l] r by simp
    then show "elt preds idx - elt preds (idx[2 := Suc (idx ! 2)]) = 0"
      by (simp add: idx list_update_4)
  qed
qed

lemma L_tv_constant:
  assumes "dims preds = [n, c, h, w]" "0 < n" "0 < c" "2 \<le> h" "2 \<le> w"
    and "spatially_constant preds"
  shows "L_tv preds = Inr (Num 0)"
  unfolding L_tv_value [OF assms(1-5)]
  using tv_constant [OF assms(1,6)] by (simp add: sum_list_zero)

lemma L_tv_full:
  assumes "0 < n" "0 < c" "2 \<le> h" "2 \<le> w"
  shows "L_tv (full [n, c, h, w] a) = Inr (Num 0)"
  by (rule L_tv_constant [of _ n c h w]) (simp_all add: assms spatially_constant_full)


section \<open>Claims on the loss terms\<close>

text \<open>
  C4 (as stated): for every input image batch the total-variation loss is a non-negative
  scalar, and exactly 0 on a spatially constant image. An image of a single row is
  spatially constant, it has no vertically adjacent pixels, and the mean of no
  differences is not a number.
\<close>

theorem C4_counterexample:
  "spatially_constant (full [1, 3, 1, 4] 0) \<and> L_tv (full [1, 3, 1, 4] 0) = Inr NaN"
proof -
  have "indices [1, 3, 1 - 1, 4] = []"
    by (simp add: indices.simps)
  then show ?thesis
    by (simp add: spatially_constant_full L_tv_formula [of _ 1 3 1 4])
qed

text \<open>
  C4 (amended): for every image batch with at least one sample, one channel, two rows
  and two columns, the total-variation loss is a non-negative number, the mean absolute
  difference of horizontally adjacent pixels plus the mean absolute difference of
  vertically adjacent pixels, where the last column and the last row have no neighbour
  and start no difference; it is exactly 0 when the image is spatially constant.
\<close>

theorem C4_total_variation:
  assumes "dims preds = [n, c, h, w]" "0 < n" "0 < c" "2 \<le> h" "2 \<le> w"
  shows "\<exists>r. L_tv preds = Inr (Num r) \<and> 0 \<le> r \<and>
    r = (\<Sum>idx\<leftarrow>indices [n, c, h, w - 1]. \<bar>elt preds idx - elt preds (idx[3 := Suc (idx ! 3)])\<bar>)
           / real (n * c * h * (w - 1))
      + (\<Sum>idx\<leftarrow>indices [n, c, h - 1, w]. \<bar>elt preds idx - elt preds (idx[2 := Suc (idx ! 2)])\<bar>)
           / real (n * c * (h - 1) * w) \<and>
    (spatially_constant preds \<longrightarrow> r = 0)"
proof -
  let ?sw = "\<Sum>idx\<leftarrow>indices [n, c, h, w - 1]. \<bar>elt preds idx - elt preds (idx[3 := Suc (idx ! 3)])\<bar>"
  let ?sh = "\<Sum>idx\<leftarrow>indices [n, c, h - 1, w]. \<bar>elt preds idx - elt preds (idx[2 := Suc (idx ! 2)])\<bar>"
  let ?r = "?sw / real (n * c * h * (w - 1)) + ?sh / real (n * c * (h - 1) * w)"
  have v: "L_tv preds = Inr (Num ?r)"
    by (rule L_tv_value [OF assms])
  have "0 \<le> ?sw" "0 \<le> ?sh" by (rule sum_list_abs_nonneg)+
  then have nn: "0 \<le> ?r" by simp
  have z: "?r = 0" if "spatially_constant preds"
  proof -
    have "?sw = 0" "?sh = 0"
      using tv_constant [OF assms(1) that] by (simp_all add: sum_list_zero)
    then show ?thesis by simp
  qed
  show ?thesis
    using v nn z by blast
qed

theorem C4_total_variation_witness:
  "L_tv (tensor4 [[[[1, 2], [4, 8]]]]) = Inr (Num 7) \<and> L_tv (full [2, 3, 4, 5] 7) = Inr (Num 0)"
proof -
  have d: "dims (tensor4 [[[[1, 2], [4, 8]]]]) = [1, 1, 2, 2]"
    by (simp add: tensor4_def)
  have i: "indices [1, 1, 2, 2 - 1] = [[0, 0, 0, 0], [0, 0, 1, 0]]"
          "indices [1, 1, 2 - 1, 2] = [[0, 0, 0, 0], [0, 0, 0, 1]]"
    by code_simp+
  have "L_tv (tensor4 [[[[1, 2], [4, 8]]]]) = Inr (Num 7)"
    using C4_total_variation [OF d] unfolding i
    by (simp add: tensor4_def list_update_4)
  moreover have "L_tv (full [2, 3, 4, 5] 7) = Inr (Num 0)"
    using C4_total_variation [of "full [2, 3, 4, 5] 7" 2 3 4 5]
    by (auto simp add: spatially_constant_full)
  ultimately show ?thesis by simp
qed





section \<open>Lemmas on the loss session\<close>

lemma init_fields:
  assumes "Loss_plst_init v style lc ls ltv = Inr self"
  shows "\<exists>s1 s2 s3 s4. v style = Inr (s1, s2, s3, s4) \<and>
     self = \<lparr>vgg = v, style_img = style, lambda_c = lc, lambda_s = ls, lambda_tv = ltv,
             style_relu1_2 = s1, style_relu2_2 = s2, style_relu3_3 = s3, style_relu4_3 = s4\<rparr>"
  using assms by (auto simp add: Loss_plst_init_def bindE_def split: sum.splits prod.splits)

lemma Vgg16_64:
  "Vgg16 (n, 3, 64, 64) = Inr ((n, 64, 64, 64), (n, 128, 32, 32), (n, 256, 16, 16), (n, 512, 8, 8))"
  by (simp add: Vgg16_shape)


lemma filled_features_64:
  "filled_features (full [n, 3, 64, 64] a) =
     Inr (full [n, 64, 64, 64] a, full [n, 128, 32, 32] a, full [n, 256, 16, 16] a, full [n, 512, 8, 8] a)"
  by (simp add: filled_features_def Vgg16_64)


lemma init_filled_features:
  "Loss_plst_init filled_features (full [b, 3, 64, 64] s) lc ls ltv =
     Inr \<lparr>vgg = filled_features, style_img = full [b, 3, 64, 64] s,
          lambda_c = lc, lambda_s = ls, lambda_tv = ltv,
          style_relu1_2 = full [b, 64, 64, 64] s, style_relu2_2 = full [b, 128, 32, 32] s,
          style_relu3_3 = full [b, 256, 16, 16] s, style_relu4_3 = full [b, 512, 8, 8] s\<rparr>"
  by (simp add: Loss_plst_init_def filled_features_64)

lemma extract_filled_features:
  assumes "Loss_plst_init filled_features (full [b, 3, 64, 64] s) lc ls ltv = Inr self" and "0 < b"
  shows "fst (extract_and_calculate_loss self (full [b, 3, 64, 64] a) (full [b, 3, 64, 64] y)) =
     Inr (Num (lc * ((y - a) * (y - a))),
          Num (ls * (4 * ((y * y - s * s) * (y * y - s * s)))),
          Num 0)"
proof -
  have self: "self = \<lparr>vgg = filled_features, style_img = full [b, 3, 64, 64] s,
          lambda_c = lc, lambda_s = ls, lambda_tv = ltv,
          style_relu1_2 = full [b, 64, 64, 64] s, style_relu2_2 = full [b, 128, 32, 32] s,
          style_relu3_3 = full [b, 256, 16, 16] s, style_relu4_3 = full [b, 512, 8, 8] s\<rparr>"
    using assms(1) by (simp add: init_filled_features)
  have f: "L_feat (full [b, 256, 16, 16] y) (full [b, 256, 16, 16] a) = Inr (Num ((y - a) * (y - a)))"
    using assms(2) by (intro L_feat_full) simp
  have s: "L_style (full [b, 64, 64, 64] y) (full [b, 64, 64, 64] s) = Inr (Num ((y * y - s * s) * (y * y - s * s)))"
    "L_style (full [b, 128, 32, 32] y) (full [b, 128, 32, 32] s) = Inr (Num ((y * y - s * s) * (y * y - s * s)))"
    "L_style (full [b, 256, 16, 16] y) (full [b, 256, 16, 16] s) = Inr (Num ((y * y - s * s) * (y * y - s * s)))"
    "L_style (full [b, 512, 8, 8] y) (full [b, 512, 8, 8] s) = Inr (Num ((y * y - s * s) * (y * y - s * s)))"
    using assms(2) by (intro L_style_full; simp)+
  have t: "L_tv (full [b, 3, 64, 64] y) = Inr (Num 0)"
    using assms(2) by (intro L_tv_full) simp_all
  show ?thesis
    unfolding self extract_and_calculate_loss_def
    by (simp add: filled_features_64 f s t)
qed

section \<open>Claims on the loss session\<close>

text \<open>
  C1: for a session built from an extractor \<open>v\<close>, a style image and the weights
  \<open>lc\<close>, \<open>ls\<close>, \<open>ltv\<close>, a call \<open>extract_and_calculate_loss x y_hat\<close> returns the triple
  \<open>(loss_c, loss_s, loss_tv)\<close> exactly when \<open>loss_c\<close> is \<open>lc\<close> times \<open>L_feat\<close> of the third
  stage of \<open>y_hat\<close> and the third stage of \<open>x\<close>, \<open>loss_s\<close> is \<open>ls\<close> times the sum over the
  four stages of \<open>L_style\<close> of the stage of \<open>y_hat\<close> and the stage of the style image, and
  \<open>loss_tv\<close> is \<open>ltv\<close> times \<open>L_tv y_hat\<close>: three separate scalars, none of them a sum of
  the others.
\<close>

theorem C1_returned_triple:
  assumes "Loss_plst_init v style lc ls ltv = Inr self"
  shows "fst (extract_and_calculate_loss self x y_hat) = Inr (loss_c, loss_s, loss_tv) \<longleftrightarrow>
    (\<exists>s1 s2 s3 s4 x1 x2 x3 x4 y1 y2 y3 y4 lf l1 l2 l3 l4 lt.
        v style = Inr (s1, s2, s3, s4) \<and> v x = Inr (x1, x2, x3, x4) \<and>
        v y_hat = Inr (y1, y2, y3, y4) \<and>
        L_feat y3 x3 = Inr lf \<and>
        L_style y1 s1 = Inr l1 \<and> L_style y2 s2 = Inr l2 \<and>
        L_style y3 s3 = Inr l3 \<and> L_style y4 s4 = Inr l4 \<and>
        L_tv y_hat = Inr lt \<and>
        loss_c = s_mul (Num lc) lf \<and>
        loss_s = s_mul (Num ls) (s_add (s_add (s_add l1 l2) l3) l4) \<and>
        loss_tv = s_mul (Num ltv) lt)"
proof -
  from init_fields [OF assms] obtain s1 s2 s3 s4 where s: "v style = Inr (s1, s2, s3, s4)"
    and self: "self = \<lparr>vgg = v, style_img = style, lambda_c = lc, lambda_s = ls, lambda_tv = ltv,
             style_relu1_2 = s1, style_relu2_2 = s2, style_relu3_3 = s3, style_relu4_3 = s4\<rparr>"
    by blast
  show ?thesis
    unfolding self extract_and_calculate_loss_def
    by (auto simp add: s bindE_def Let_def split: sum.splits prod.splits)
qed

theorem C1_returned_triple_witness:
  "\<exists>self. Loss_plst_init filled_features (full [2, 3, 64, 64] 3) 1 2 3 = Inr self \<and>
      fst (extract_and_calculate_loss self (full [2, 3, 64, 64] 1) (full [2, 3, 64, 64] 2)) =
        Inr (Num 1, Num 200, Num 0)"
proof -
  obtain self where i: "Loss_plst_init filled_features (full [2, 3, 64, 64] 3) 1 2 3 = Inr self"
    by (simp add: init_filled_features)
  have f: "L_feat (full [2, 256, 16, 16] 2) (full [2, 256, 16, 16] 1) = Inr (Num 1)"
    using L_feat_full [of "[2, 256, 16, 16]" 2 1] by simp
  have s: "L_style (full [2, 64, 64, 64] 2) (full [2, 64, 64, 64] 3) = Inr (Num 25)"
    "L_style (full [2, 128, 32, 32] 2) (full [2, 128, 32, 32] 3) = Inr (Num 25)"
    "L_style (full [2, 256, 16, 16] 2) (full [2, 256, 16, 16] 3) = Inr (Num 25)"
    "L_style (full [2, 512, 8, 8] 2) (full [2, 512, 8, 8] 3) = Inr (Num 25)"
    using L_style_full [of 2 64 64 64 64 64 2 3] L_style_full [of 2 128 32 32 32 32 2 3]
      L_style_full [of 2 256 16 16 16 16 2 3] L_style_full [of 2 512 8 8 8 8 2 3]
    by simp_all
  have t: "L_tv (full [2, 3, 64, 64] 2) = Inr (Num 0)"
    by (rule L_tv_full) simp_all
  have "fst (extract_and_calculate_loss self (full [2, 3, 64, 64] 1) (full [2, 3, 64, 64] 2)) =
        Inr (s_mul (Num 1) (Num 1),
             s_mul (Num 2) (s_add (s_add (s_add (Num 25) (Num 25)) (Num 25)) (Num 25)),
             s_mul (Num 3) (Num 0))"
    unfolding C1_returned_triple [OF i]
    by (simp add: filled_features_64 f s t)
  then show ?thesis using i by simp
qed



text \<open>
  C8: the session that the constructor returns holds the four feature maps of one run of
  the extractor on the style image, next to the extractor, the style image and the three
  weights it was given; a call of \<open>extract_and_calculate_loss\<close> leaves the session as it
  was, whatever its arguments and whether it returns or raises, and so does any sequence
  of calls; and a call does not read the style image again: its result is the same with
  any other image in that field.
\<close>

theorem C8_session_unchanged:
  assumes "Loss_plst_init v style lc ls ltv = Inr self"
  shows "v style = Inr (style_relu1_2 self, style_relu2_2 self, style_relu3_3 self, style_relu4_3 self) \<and>
         vgg self = v \<and> style_img self = style \<and>
         lambda_c self = lc \<and> lambda_s self = ls \<and> lambda_tv self = ltv \<and>
         snd (extract_and_calculate_loss self x y_hat) = self \<and>
         run_calls self calls = self \<and>
         fst (extract_and_calculate_loss (self\<lparr>style_img := other\<rparr>) x y_hat) =
           fst (extract_and_calculate_loss self x y_hat)"
proof -
  have r: "run_calls s cs = s" for s cs
    by (induction cs arbitrary: s) (auto simp add: extract_and_calculate_loss_def)
  from init_fields [OF assms] show ?thesis
    by (auto simp add: r extract_and_calculate_loss_def)
qed

theorem C8_session_unchanged_witness:
  "\<exists>self. Loss_plst_init filled_features (full [2, 3, 64, 64] 3) 1 2 3 = Inr self \<and>
      style_relu3_3 self = full [2, 256, 16, 16] 3 \<and> lambda_s self = 2 \<and>
      snd (extract_and_calculate_loss self (full [2, 3, 64, 64] 1) (full [2, 3, 64, 64] 2)) = self \<and>
      run_calls self [(full [2, 3, 64, 64] 1, full [2, 3, 64, 64] 2),
                      (full [5] 1, full [2, 3, 64, 64] 1)] = self"
proof -
  obtain self where i: "Loss_plst_init filled_features (full [2, 3, 64, 64] 3) 1 2 3 = Inr self"
    by (simp add: init_filled_features)
  from C8_session_unchanged [OF i, where x = "full [2, 3, 64, 64] 1" and y_hat = "full [2, 3, 64, 64] 2"
      and calls = "[(full [2, 3, 64, 64] 1, full [2, 3, 64, 64] 2), (full [5] 1, full [2, 3, 64, 64] 1)]"
      and other = "full [2, 3, 64, 64] 9"]
  show ?thesis
    using i by (auto simp add: filled_features_64 simp del: run_calls.simps)
qed

text \<open>
  C10 (as stated): two sessions with the same extractor and weights and different style
  images return the same first and third component for the same \<open>(x, y_hat)\<close>, and the
  style image influences the second component only. With a content batch of two images,
  the session with a style batch of two images returns its three losses, and the session
  with a style batch of three images returns none: the Gram matrices of sizes
  \<open>[2, 64, 64]\<close> and \<open>[3, 64, 64]\<close> do not broadcast, and the call raises.
\<close>

theorem C10_counterexample:
  "\<exists>self self'.
      Loss_plst_init filled_features (full [2, 3, 64, 64] 3) 1 1 1 = Inr self \<and>
      Loss_plst_init filled_features (full [3, 3, 64, 64] 3) 1 1 1 = Inr self' \<and>
      fst (extract_and_calculate_loss self (full [2, 3, 64, 64] 1) (full [2, 3, 64, 64] 1)) =
        Inr (Num 0, Num 256, Num 0) \<and>
      fst (extract_and_calculate_loss self' (full [2, 3, 64, 64] 1) (full [2, 3, 64, 64] 1)) =
        Inl RuntimeError"
proof -
  obtain self where i: "Loss_plst_init filled_features (full [2, 3, 64, 64] 3) 1 1 1 = Inr self"
    by (simp add: init_filled_features)
  have a: "fst (extract_and_calculate_loss self (full [2, 3, 64, 64] 1) (full [2, 3, 64, 64] 1)) =
        Inr (Num 0, Num 256, Num 0)"
    using extract_filled_features [OF i, of 1 1] by simp
  have f: "L_feat (full [2, 256, 16, 16] 1) (full [2, 256, 16, 16] 1) = Inr (Num 0)"
    using L_feat_full [of "[2, 256, 16, 16]" 1 1] by simp
  have m: "L_style (full [2, 64, 64, 64] 1) (full [3, 64, 64, 64] 3) = Inl RuntimeError"
    by (rule L_style_batch_mismatch [of 2 3 _ 64 64 64 _ 64 64 64]) simp_all
  have b: "fst (extract_and_calculate_loss
       \<lparr>vgg = filled_features, style_img = full [3, 3, 64, 64] 3,
          lambda_c = 1, lambda_s = 1, lambda_tv = 1,
          style_relu1_2 = full [3, 64, 64, 64] 3, style_relu2_2 = full [3, 128, 32, 32] 3,
          style_relu3_3 = full [3, 256, 16, 16] 3, style_relu4_3 = full [3, 512, 8, 8] 3\<rparr>
        (full [2, 3, 64, 64] 1) (full [2, 3, 64, 64] 1)) = Inl RuntimeError"
    unfolding extract_and_calculate_loss_def
    by (simp add: filled_features_64 f m)
  show ?thesis
    using i a b by (auto simp add: init_filled_features)
qed

text \<open>
  C10 (amended): for two sessions with the same extractor and weights and different
  style images, whenever the calls with the same \<open>(x, y_hat)\<close> both return, they return
  the same first and the same third component.
\<close>

theorem C10_independent_of_style:
  assumes "Loss_plst_init v style lc ls ltv = Inr self"
    and "Loss_plst_init v style' lc ls ltv = Inr self'"
    and "fst (extract_and_calculate_loss self x y_hat) = Inr (loss_c, loss_s, loss_tv)"
    and "fst (extract_and_calculate_loss self' x y_hat) = Inr (loss_c', loss_s', loss_tv')"
  shows "loss_c = loss_c' \<and> loss_tv = loss_tv'"
proof -
  from init_fields [OF assms(1)] obtain s1 s2 s3 s4 where
    self: "self = \<lparr>vgg = v, style_img = style, lambda_c = lc, lambda_s = ls, lambda_tv = ltv,
             style_relu1_2 = s1, style_relu2_2 = s2, style_relu3_3 = s3, style_relu4_3 = s4\<rparr>"
    by blast
  from init_fields [OF assms(2)] obtain t1 t2 t3 t4 where
    self': "self' = \<lparr>vgg = v, style_img = style', lambda_c = lc, lambda_s = ls, lambda_tv = ltv,
             style_relu1_2 = t1, style_relu2_2 = t2, style_relu3_3 = t3, style_relu4_3 = t4\<rparr>"
    by blast
  show ?thesis
    using assms(3,4) unfolding self self' extract_and_calculate_loss_def
    by (auto simp add: bindE_def Let_def split: sum.splits prod.splits)
qed

theorem C10_independent_of_style_witness:
  "\<exists>self self'.
      Loss_plst_init filled_features (full [2, 3, 64, 64] 3) 1 1 1 = Inr self \<and>
      Loss_plst_init filled_features (full [2, 3, 64, 64] 5) 1 1 1 = Inr self' \<and>
      fst (extract_and_calculate_loss self (full [2, 3, 64, 64] 1) (full [2, 3, 64, 64] 2)) =
        Inr (Num 1, Num 100, Num 0) \<and>
      fst (extract_and_calculate_loss self' (full [2, 3, 64, 64] 1) (full [2, 3, 64, 64] 2)) =
        Inr (Num 1, Num 1764, Num 0)"
proof -
  obtain self where i: "Loss_plst_init filled_features (full [2, 3, 64, 64] 3) 1 1 1 = Inr self"
    by (simp add: init_filled_features)
  obtain self' where i': "Loss_plst_init filled_features (full [2, 3, 64, 64] 5) 1 1 1 = Inr self'"
    by (simp add: init_filled_features)
  have a: "fst (extract_and_calculate_loss self (full [2, 3, 64, 64] 1) (full [2, 3, 64, 64] 2)) =
        Inr (Num 1, Num 100, Num 0)"
    using extract_filled_features [OF i, of 1 2] by simp
  have b: "fst (extract_and_calculate_loss self' (full [2, 3, 64, 64] 1) (full [2, 3, 64, 64] 2)) =
        Inr (Num 1, Num 1764, Num 0)"
    using extract_filled_features [OF i', of 1 2] by simp
  from C10_independent_of_style [OF i i' a b] show ?thesis
    using i i' a b by blast
qed

end
